theory Spec2Isabelle
  imports Complex_Main "HOL-Library.Multiset"
begin

section \<open>JavaScript values\<close>

text \<open>
  The dashboard's components read a JSON payload and compute with JavaScript numbers.
  A number is modelled as an exact rational when it is finite, plus the three special
  values a division can produce. Rounding of finite results and the sign of zero are not
  modelled: finite arithmetic is exact here.
\<close>

datatype jsnum = Fin rat | PosInf | NegInf | NaN

text \<open>What an array element or an optional field can hold in the functions below.\<close>

datatype jsval = Undefined | Null | Number jsnum

text \<open>JavaScript truthiness, as tested by \<^verbatim>\<open>if (v)\<close> and \<^verbatim>\<open>a && b\<close>.\<close>

fun truthy :: "jsval \<Rightarrow> bool" where
  "truthy Undefined = False"
| "truthy Null = False"
| "truthy (Number (Fin q)) = (q \<noteq> 0)"
| "truthy (Number NaN) = False"
| "truthy (Number PosInf) = True"
| "truthy (Number NegInf) = True"

text \<open>\<^verbatim>\<open>a[i]\<close>: an index outside the array reads \<^verbatim>\<open>undefined\<close> (here \<open>None\<close>).\<close>

definition at_index :: "'a list \<Rightarrow> int \<Rightarrow> 'a option" where
  "at_index xs i = (if 0 \<le> i \<and> i < int (length xs) then Some (xs ! nat i) else None)"

text \<open>
  \<^verbatim>\<open>Array.prototype.indexOf\<close>: the first position holding the value, or \<open>-1\<close>. The
  searched value may be \<^verbatim>\<open>undefined\<close> (\<open>None\<close>), which no year equals.
\<close>

fun indexOf_from :: "int list \<Rightarrow> int option \<Rightarrow> int \<Rightarrow> int" where
  "indexOf_from [] v i = - 1"
| "indexOf_from (y # ys) v i = (if Some y = v then i else indexOf_from ys v (i + 1))"

definition indexOf :: "int list \<Rightarrow> int option \<Rightarrow> int" where
  "indexOf ys v = indexOf_from ys v 0"

text \<open>
  \<^verbatim>\<open>Array.prototype.sort(compareFn)\<close> is a stable sort: with a comparator that is
  consistent (here a difference of finite numbers) its result is the stable insertion
  sort, where an element stays in front of every later element it does not compare
  greater than.
\<close>

fun insert_by :: "('a \<Rightarrow> 'a \<Rightarrow> rat) \<Rightarrow> 'a \<Rightarrow> 'a list \<Rightarrow> 'a list" where
  "insert_by cmp x [] = [x]"
| "insert_by cmp x (y # ys) =
     (if cmp x y \<le> 0 then x # y # ys else y # insert_by cmp x ys)"

definition js_sort :: "('a \<Rightarrow> 'a \<Rightarrow> rat) \<Rightarrow> 'a list \<Rightarrow> 'a list" where
  "js_sort cmp xs = foldr (insert_by cmp) xs []"

section \<open>The payload\<close>

record shareholder =
  name :: string
  ownership_percentage :: rat

text \<open>
  The response of the upload and filter endpoints, column by column: one entry per year
  in every table. A table that the payload does not carry is \<open>None\<close>; an entry of the
  shareholders table can be \<^verbatim>\<open>null\<close> (\<open>None\<close>).
\<close>

record payload =
  years :: "int list"
  revenue :: "jsval list option"
  revenue_growth :: "jsval list option"
  cost_of_sales :: "jsval list option"
  cost_ratio :: "jsval list option"
  gross_profit_margin :: "jsval list option"
  eps_growth :: "jsval list option"
  net_profit :: "jsval list option"
  net_asset_per_share :: "jsval list option"
  shareholders :: "shareholder list option list option"

section \<open>TopShareholders.js\<close>

text \<open>
  \<^verbatim>\<open>useState(data.years[data.years.length - 1])\<close>: the year selected at first, undefined
  when the payload has no year.
\<close>

definition initialSelectedYear :: "payload \<Rightarrow> int option" where
  "initialSelectedYear d = at_index (years d) (int (length (years d)) - 1)"

text \<open>
  \<^verbatim>\<open>const yearIndex = data.years.indexOf(selectedYear);
  const yearData = data.shareholders && data.shareholders[yearIndex]
                     ? data.shareholders[yearIndex] : [];\<close>
\<close>

definition yearIndex :: "payload \<Rightarrow> int option \<Rightarrow> int" where
  "yearIndex d selectedYear = indexOf (years d) selectedYear"

definition yearData :: "payload \<Rightarrow> int option \<Rightarrow> shareholder list" where
  "yearData d selectedYear =
     (case shareholders d of
        None \<Rightarrow> []
      | Some tbl \<Rightarrow>
          (case at_index tbl (yearIndex d selectedYear) of
             Some (Some entry) \<Rightarrow> entry
           | Some None \<Rightarrow> []
           | None \<Rightarrow> []))"

text \<open>\<^verbatim>\<open>(a, b) => b.ownership_percentage - a.ownership_percentage\<close>\<close>

definition by_ownership_desc :: "shareholder \<Rightarrow> shareholder \<Rightarrow> rat" where
  "by_ownership_desc a b = ownership_percentage b - ownership_percentage a"

definition sortedShareholders :: "shareholder list \<Rightarrow> shareholder list" where
  "sortedShareholders yd = js_sort by_ownership_desc yd"

text \<open>
  \<^verbatim>\<open>sortedShareholders.slice(0, 10)\<close>. The component fixes the number of entries at 10;
  \<open>topShareholders\<close> is the same expression with the constant as a parameter.
\<close>

definition topShareholders :: "nat \<Rightarrow> shareholder list \<Rightarrow> shareholder list" where
  "topShareholders n yd = take n (sortedShareholders yd)"

definition top10Shareholders :: "shareholder list \<Rightarrow> shareholder list" where
  "top10Shareholders yd = topShareholders 10 yd"

text \<open>What the component renders under its header: the bar chart or the message.\<close>

datatype shareholders_view =
    BarChart "string list" "rat list"
  | NoDataMessage "int option"

definition TopShareholders_render :: "payload \<Rightarrow> int option \<Rightarrow> shareholders_view" where
  "TopShareholders_render d selectedYear =
     (let yd = yearData d selectedYear;
          top10 = top10Shareholders yd
      in if length yd > 0
         then BarChart (map name top10) (map ownership_percentage top10)
         else NoDataMessage selectedYear)"

section \<open>UploadForm.js\<close>

text \<open>
  Text built by a template literal is kept in pieces: a literal part, a number printed by
  \<^verbatim>\<open>toFixed(d)\<close>, or a count printed in decimal.
\<close>

datatype piece = Lit string | Fixed nat jsnum | Count nat

type_synonym text_line = "piece list"

text \<open>A selected file; \<open>file_type\<close> is the browser's \<^verbatim>\<open>file.type\<close>.\<close>

record selected_file =
  file_name :: string
  file_type :: string

text \<open>The component's state: \<^verbatim>\<open>useState([])\<close> and \<^verbatim>\<open>useState('')\<close>.\<close>

record upload_form =
  files :: "selected_file list"
  message :: text_line

definition upload_form_init :: upload_form where
  "upload_form_init = \<lparr>files = [], message = []\<rparr>"

definition is_pdf :: "selected_file \<Rightarrow> bool" where
  "is_pdf f = (file_type f = ''application/pdf'')"

definition handleFileChange :: "upload_form \<Rightarrow> selected_file list \<Rightarrow> upload_form" where
  "handleFileChange st selectedFiles =
     (let pdfFiles = filter is_pdf selectedFiles
      in if length pdfFiles \<noteq> length selectedFiles
         then st\<lparr>message := [Lit ''Please select only PDF files.'']\<rparr>
         else st\<lparr>files := pdfFiles,
                 message := [Count (length pdfFiles), Lit '' file(s) selected.'']\<rparr>)"

text \<open>The new state and, when the callback is invoked, the argument of \<^verbatim>\<open>onUpload\<close>.\<close>

definition handleSubmit :: "upload_form \<Rightarrow> upload_form \<times> selected_file list option" where
  "handleSubmit st =
     (if length (files st) = 0
      then (st\<lparr>message := [Lit ''Please select at least one PDF file.'']\<rparr>, None)
      else (st, Some (files st)))"

datatype form_event = FileChange "selected_file list" | Submit

fun form_step :: "upload_form \<Rightarrow> form_event \<Rightarrow> upload_form \<times> selected_file list option" where
  "form_step st (FileChange selectedFiles) = (handleFileChange st selectedFiles, None)"
| "form_step st Submit = handleSubmit st"

text \<open>A sequence of events: the final state and the calls of \<^verbatim>\<open>onUpload\<close>, in order.\<close>

fun form_run :: "upload_form \<Rightarrow> form_event list \<Rightarrow> upload_form \<times> selected_file list list" where
  "form_run st [] = (st, [])"
| "form_run st (e # es) =
     (case form_step st e of
        (st', call) \<Rightarrow>
          (case form_run st' es of
             (st'', calls) \<Rightarrow> (st'', (case call of None \<Rightarrow> calls | Some c \<Rightarrow> c # calls))))"

section \<open>App.js\<close>

text \<open>The filter selection held by the application and sent to the filter endpoint.\<close>

record filter_selection =
  sel_years :: "int list"
  industry :: string
  currency :: string

definition filters_init :: filter_selection where
  "filters_init = \<lparr>sel_years = [], industry = ''All'', currency = ''LKR''\<rparr>"

datatype request = UploadRequest "selected_file list" | FilterRequest filter_selection

text \<open>
  The four state variables of \<^verbatim>\<open>App\<close>, and the requests whose promise is still
  awaited. \<open>issued\<close> counts the requests sent so far; a request is known by the count
  at the time it was sent. The application keeps no such number itself: it belongs to the
  model of the pending promises. The type of a response is left open: the application
  stores \<^verbatim>\<open>response.data\<close> as it comes.
\<close>

record 'd orchestrator =
  data :: "'d option"
  isLoading :: bool
  error :: "string option"
  filters :: filter_selection
  in_flight :: "(nat \<times> request) list"
  issued :: nat

definition app_init :: "'d orchestrator" where
  "app_init = \<lparr>data = None, isLoading = False, error = None, filters = filters_init,
                in_flight = [], issued = 0\<rparr>"

text \<open>
  What happens to the application: a call of \<^verbatim>\<open>handleFileUpload\<close> or
  \<^verbatim>\<open>handleFilterChange\<close>, and the promise of request \<open>k\<close> being fulfilled with a
  response or rejected.
\<close>

datatype 'd event =
    HandleFileUpload "selected_file list"
  | HandleFilterChange filter_selection
  | Resolved nat 'd
  | Rejected nat

definition send :: "'d orchestrator \<Rightarrow> request \<Rightarrow> 'd orchestrator" where
  "send s r = s\<lparr>in_flight := in_flight s @ [(issued s, r)], issued := Suc (issued s)\<rparr>"

definition settle :: "'d orchestrator \<Rightarrow> nat \<Rightarrow> 'd orchestrator" where
  "settle s k = s\<lparr>in_flight := filter (\<lambda>p. fst p \<noteq> k) (in_flight s)\<rparr>"

text \<open>
  One event. \<open>None\<close>: the event cannot happen (no such request is awaited). Both
  handlers end with \<^verbatim>\<open>finally { setIsLoading(false) }\<close>.
\<close>

fun step :: "'d orchestrator \<Rightarrow> 'd event \<Rightarrow> 'd orchestrator option" where
  "step s (HandleFileUpload fs) =
     Some (send (s\<lparr>isLoading := True, error := None\<rparr>) (UploadRequest fs))"
| "step s (HandleFilterChange newFilters) =
     Some (send (s\<lparr>filters := newFilters, isLoading := True\<rparr>) (FilterRequest newFilters))"
| "step s (Resolved k response_data) =
     (case map_of (in_flight s) k of
        None \<Rightarrow> None
      | Some r \<Rightarrow> Some (settle (s\<lparr>data := Some response_data, isLoading := False\<rparr>) k))"
| "step s (Rejected k) =
     (case map_of (in_flight s) k of
        None \<Rightarrow> None
      | Some (UploadRequest fs) \<Rightarrow>
          Some (settle (s\<lparr>error := Some ''Failed to upload files. Please try again.'',
                           isLoading := False\<rparr>) k)
      | Some (FilterRequest f) \<Rightarrow>
          Some (settle (s\<lparr>error := Some ''Failed to filter data. Please try again.'',
                           isLoading := False\<rparr>) k))"

fun run :: "'d orchestrator \<Rightarrow> 'd event list \<Rightarrow> 'd orchestrator option" where
  "run s [] = Some s"
| "run s (e # es) = (case step s e of None \<Rightarrow> None | Some s' \<Rightarrow> run s' es)"

text \<open>The main content rendered below the error banner (which shows \<open>error\<close>).\<close>

datatype 'd main_content = LoadingData | UploadPrompt | Dashboard 'd

definition main_content :: "'d orchestrator \<Rightarrow> 'd main_content" where
  "main_content s =
     (if isLoading s then LoadingData
      else case data s of None \<Rightarrow> UploadPrompt | Some d \<Rightarrow> Dashboard d)"

text \<open>The response of the last promise fulfilled in a sequence of events, if any.\<close>

fun last_resolved :: "'d event list \<Rightarrow> 'd option" where
  "last_resolved [] = None"
| "last_resolved (e # es) =
     (case last_resolved es of
        Some d \<Rightarrow> Some d
      | None \<Rightarrow> (case e of Resolved k d \<Rightarrow> Some d | _ \<Rightarrow> None))"

section \<open>Filters.js\<close>

text \<open>The component's local state: the three \<^verbatim>\<open>useState\<close> cells.\<close>

record filters_form =
  years_selected :: "int list"
  industry_selected :: string
  currency_selected :: string

definition availableYears :: "int list" where
  "availableYears = [2019, 2020, 2021, 2022, 2023, 2024]"

text \<open>
  \<^verbatim>\<open>useState(filters.years || [])\<close> and so on: an array is always truthy, an empty string
  is not.
\<close>

definition filters_form_init :: "filter_selection \<Rightarrow> filters_form" where
  "filters_form_init f =
     \<lparr>years_selected = sel_years f,
      industry_selected = (if industry f = [] then ''All'' else industry f),
      currency_selected = (if currency f = [] then ''LKR'' else currency f)\<rparr>"

text \<open>
  The effect that runs once after the first render:
  \<^verbatim>\<open>if (years.length === 0) { setYears(availableYears); }\<close>. It calls no \<^verbatim>\<open>onChange\<close>.
\<close>

definition filters_form_mount :: "filters_form \<Rightarrow> filters_form" where
  "filters_form_mount st =
     (if length (years_selected st) = 0 then st\<lparr>years_selected := availableYears\<rparr> else st)"

text \<open>
  The handlers take the \<^verbatim>\<open>filters\<close> prop and the local state, and give the new local
  state and the argument of \<^verbatim>\<open>onChange\<close>.
\<close>

definition handleYearChange ::
  "filter_selection \<Rightarrow> filters_form \<Rightarrow> int list \<Rightarrow> filters_form \<times> filter_selection" where
  "handleYearChange f st selectedYears =
     (st\<lparr>years_selected := selectedYears\<rparr>, f\<lparr>sel_years := selectedYears\<rparr>)"

definition handleIndustryChange ::
  "filter_selection \<Rightarrow> filters_form \<Rightarrow> string \<Rightarrow> filters_form \<times> filter_selection" where
  "handleIndustryChange f st v = (st\<lparr>industry_selected := v\<rparr>, f\<lparr>industry := v\<rparr>)"

definition handleCurrencyChange ::
  "filter_selection \<Rightarrow> filters_form \<Rightarrow> string \<Rightarrow> filters_form \<times> filter_selection" where
  "handleCurrencyChange f st v = (st\<lparr>currency_selected := v\<rparr>, f\<lparr>currency := v\<rparr>)"

text \<open>The button: \<^verbatim>\<open>onChange({ years, industry, currency })\<close>.\<close>

definition applyFilters :: "filters_form \<Rightarrow> filter_selection" where
  "applyFilters st =
     \<lparr>sel_years = years_selected st, industry = industry_selected st,
      currency = currency_selected st\<rparr>"

section \<open>Arithmetic and array reads of the chart components\<close>

text \<open>\<^verbatim>\<open>ToNumber\<close>, applied by \<open>-\<close>, \<open>/\<close> and \<open>*\<close> to their operands.\<close>

fun to_number :: "jsval \<Rightarrow> jsnum" where
  "to_number Undefined = NaN"
| "to_number Null = Fin 0"
| "to_number (Number n) = n"

fun js_sub :: "jsnum \<Rightarrow> jsnum \<Rightarrow> jsnum" where
  "js_sub (Fin a) (Fin b) = Fin (a - b)"
| "js_sub NaN y = NaN"
| "js_sub x NaN = NaN"
| "js_sub PosInf PosInf = NaN"
| "js_sub NegInf NegInf = NaN"
| "js_sub PosInf y = PosInf"
| "js_sub NegInf y = NegInf"
| "js_sub (Fin a) PosInf = NegInf"
| "js_sub (Fin a) NegInf = PosInf"

fun js_div :: "jsnum \<Rightarrow> jsnum \<Rightarrow> jsnum" where
  "js_div (Fin a) (Fin b) =
     (if b = 0 then (if a = 0 then NaN else if 0 < a then PosInf else NegInf)
      else Fin (a / b))"
| "js_div NaN y = NaN"
| "js_div x NaN = NaN"
| "js_div (Fin a) y = Fin 0"
| "js_div PosInf (Fin b) = (if b < 0 then NegInf else PosInf)"
| "js_div NegInf (Fin b) = (if b < 0 then PosInf else NegInf)"
| "js_div x y = NaN"

fun js_mul :: "jsnum \<Rightarrow> jsnum \<Rightarrow> jsnum" where
  "js_mul (Fin a) (Fin b) = Fin (a * b)"
| "js_mul NaN y = NaN"
| "js_mul x NaN = NaN"
| "js_mul PosInf (Fin b) = (if b = 0 then NaN else if 0 < b then PosInf else NegInf)"
| "js_mul NegInf (Fin b) = (if b = 0 then NaN else if 0 < b then NegInf else PosInf)"
| "js_mul (Fin a) PosInf = (if a = 0 then NaN else if 0 < a then PosInf else NegInf)"
| "js_mul (Fin a) NegInf = (if a = 0 then NaN else if 0 < a then NegInf else PosInf)"
| "js_mul PosInf PosInf = PosInf"
| "js_mul NegInf NegInf = PosInf"
| "js_mul x y = NegInf"

text \<open>\<^verbatim>\<open>x > 0\<close>\<close>

fun js_gt0 :: "jsnum \<Rightarrow> bool" where
  "js_gt0 (Fin a) = (0 < a)"
| "js_gt0 PosInf = True"
| "js_gt0 NegInf = False"
| "js_gt0 NaN = False"

text \<open>\<^verbatim>\<open>${x > 0 ? '+' : ''}\<close>\<close>

definition plus_sign :: "jsnum \<Rightarrow> piece" where
  "plus_sign x = Lit (if js_gt0 x then ''+'' else [])"

text \<open>\<^verbatim>\<open>a[i]\<close> for an index that is not negative.\<close>

definition element :: "jsval list \<Rightarrow> nat \<Rightarrow> jsval" where
  "element xs i = (if i < length xs then xs ! i else Undefined)"

text \<open>The value of \<^verbatim>\<open>data.t && data.t[i]\<close> as a condition: a missing table is falsy.\<close>

definition guarded_element :: "jsval list option \<Rightarrow> nat \<Rightarrow> jsval" where
  "guarded_element t i = (case t of None \<Rightarrow> Undefined | Some xs \<Rightarrow> element xs i)"

text \<open>What a tooltip callback returns: \<^verbatim>\<open>null\<close>, a string, or an array of strings.\<close>

datatype tooltip = TNull | TString text_line | TArray "text_line list"

section \<open>RevenueTrend, EPSTrend, CostExpenses: figures read from the payload\<close>

text \<open>
  The \<^verbatim>\<open>label\<close> callback of RevenueTrend, for its one dataset; \<open>parsed_y\<close> is
  \<^verbatim>\<open>context.parsed.y\<close>, \<open>None\<close> when it is \<^verbatim>\<open>null\<close>.
\<close>

definition RevenueTrend_label :: "jsnum option \<Rightarrow> text_line" where
  "RevenueTrend_label parsed_y =
     [Lit ''Revenue (Billions)'', Lit '': '']
     @ (case parsed_y of None \<Rightarrow> [] | Some y \<Rightarrow> [Fixed 2 y, Lit '' Billion''])"

definition RevenueTrend_afterLabel :: "payload \<Rightarrow> nat \<Rightarrow> tooltip" where
  "RevenueTrend_afterLabel d index =
     (if index > 0 \<and> truthy (guarded_element (revenue_growth d) (index - 1))
      then (let growth = to_number (guarded_element (revenue_growth d) (index - 1))
            in TString [Lit ''YoY Growth: '', plus_sign growth, Fixed 1 growth, Lit ''%''])
      else TNull)"

definition EPSTrend_afterLabel :: "payload \<Rightarrow> nat \<Rightarrow> tooltip" where
  "EPSTrend_afterLabel d index =
     (let labels0 = [];
          labels1 =
            (if truthy (guarded_element (net_profit d) index)
             then labels0 @ [[Lit ''Net Profit: '',
                              Fixed 2 (to_number (guarded_element (net_profit d) index)),
                              Lit '' Billion'']]
             else labels0);
          labels2 =
            (if index > 0 \<and> truthy (guarded_element (eps_growth d) (index - 1))
             then (let growth = to_number (guarded_element (eps_growth d) (index - 1))
                   in labels1 @ [[Lit ''YoY Growth: '', plus_sign growth, Fixed 1 growth,
                                  Lit ''%'']])
             else labels1)
      in TArray labels2)"

text \<open>The array EPSTrend has built after its first \<^verbatim>\<open>if\<close>: the net profit line or nothing.\<close>

definition net_profit_lines :: "payload \<Rightarrow> nat \<Rightarrow> text_line list" where
  "net_profit_lines d i =
     (if truthy (guarded_element (net_profit d) i)
      then [[Lit ''Net Profit: '', Fixed 2 (to_number (guarded_element (net_profit d) i)),
             Lit '' Billion'']]
      else [])"

definition CostExpenses_afterBody :: "payload \<Rightarrow> nat \<Rightarrow> tooltip" where
  "CostExpenses_afterBody d index =
     (if truthy (guarded_element (cost_ratio d) index)
      then TArray [[Lit ''Cost-to-Revenue Ratio: '',
                    Fixed 1 (to_number (guarded_element (cost_ratio d) index)),
                    Lit ''%'']]
      else TNull)"

section \<open>NetAssetShare, GPMargin: figures computed in the component\<close>

definition NetAssetShare_afterLabel :: "payload \<Rightarrow> nat \<Rightarrow> nat \<Rightarrow> tooltip" where
  "NetAssetShare_afterLabel d datasetIndex index =
     (if datasetIndex = 0
      then (case net_asset_per_share d of
              None \<Rightarrow> TNull
            | Some tbl \<Rightarrow>
                if index > 0
                then (let currentValue = element tbl index;
                          previousValue = element tbl (index - 1);
                          change = js_sub (to_number currentValue) (to_number previousValue);
                          percentChange =
                            js_mul (js_div change (to_number previousValue)) (Fin 100)
                      in TArray [[Lit ''YoY Change: '', plus_sign change, Fixed 2 change,
                                  Lit '' LKR''],
                                 [Lit ''YoY Growth: '', Fixed 1 percentChange, Lit ''%'']])
                else TNull)
      else TNull)"

definition GPMargin_afterLabel :: "payload \<Rightarrow> nat \<Rightarrow> nat \<Rightarrow> tooltip" where
  "GPMargin_afterLabel d datasetIndex index =
     (if datasetIndex = 0
      then (case gross_profit_margin d of
              None \<Rightarrow> TNull
            | Some tbl \<Rightarrow>
                if index > 0
                then (let currentValue = element tbl index;
                          previousValue = element tbl (index - 1);
                          change = js_sub (to_number currentValue) (to_number previousValue)
                      in TString [Lit ''YoY Change: '', plus_sign change, Fixed 2 change,
                                  Lit '' percentage points''])
                else TNull)
      else TNull)"

section \<open>Parts behind the endpoints\<close>

text \<open>
  The source files are the browser side only. The filtering of a dataset by a selection
  and the computation of the cost-to-revenue ratio happen behind the endpoints
  \<^verbatim>\<open>/api/filter\<close> and \<^verbatim>\<open>/api/upload\<close>; the definitions of this section follow
  the specification's words for them.
\<close>

text \<open>
  Modelled from the spec: the Year Record and the Dataset of the data model (section 3),
  as far as the filter reads them: a year with monetary figures, and an ordered sequence
  of year records with the currency code carried by the dataset.
\<close>

record year_record =
  year :: int
  yr_revenue :: rat
  yr_cost_of_sales :: rat

record dataset =
  records :: "year_record list"
  ds_currency :: string

text \<open>
  Modelled from the spec: the currency conversion of the Filter Engine (section 4.2),
  which multiplies all monetary fields by the supplied exchange rate.
\<close>

definition convert :: "rat \<Rightarrow> year_record \<Rightarrow> year_record" where
  "convert rate r =
     r\<lparr>yr_revenue := yr_revenue r * rate, yr_cost_of_sales := yr_cost_of_sales r * rate\<rparr>"

text \<open>
  Modelled from the spec: the Filter Engine's \<open>apply\<close> (section 4.2), which is not among
  the source files. It keeps the year records of the requested years, in order; an empty
  requested set means the full dataset; when the selection's currency differs from the
  dataset's, the monetary fields are multiplied by the supplied exchange rate; the
  industry tag has no effect on a dataset without segments.
\<close>

definition apply_filter :: "rat \<Rightarrow> dataset \<Rightarrow> filter_selection \<Rightarrow> dataset" where
  "apply_filter rate ds sel =
     (let kept = (if sel_years sel = [] then records ds
                  else filter (\<lambda>r. year r \<in> set (sel_years sel)) (records ds))
      in if currency sel = ds_currency ds then ds\<lparr>records := kept\<rparr>
         else \<lparr>records = map (convert rate) kept, ds_currency = currency sel\<rparr>)"

text \<open>
  Modelled from the spec: the Derived-Metrics Calculator's cost-to-revenue ratio
  (section 4.3), which is not among the source files: cost of sales divided by revenue,
  times 100, per year, and absent when revenue is zero. It fills the payload's
  \<open>cost_ratio\<close> table from the \<open>cost_of_sales\<close> and \<open>revenue\<close> tables; absent is
  \<^verbatim>\<open>null\<close>.
\<close>

fun cost_to_revenue :: "jsval \<Rightarrow> jsval \<Rightarrow> jsval" where
  "cost_to_revenue (Number (Fin c)) (Number (Fin r)) =
     (if r = 0 then Null else Number (Fin (c / r * 100)))"
| "cost_to_revenue c r = Null"

text \<open>
  Modelled from the spec: the \<open>cost_ratio\<close> table of a payload as the Derived-Metrics
  Calculator computes it (section 4.3), year by year from the payload's
  \<open>cost_of_sales\<close> and \<open>revenue\<close> tables.
\<close>

definition derive_cost_ratio :: "payload \<Rightarrow> jsval list option" where
  "derive_cost_ratio d =
     (case (cost_of_sales d, revenue d) of
        (Some cs, Some rs) \<Rightarrow> Some (map2 cost_to_revenue cs rs)
      | _ \<Rightarrow> None)"

section \<open>Sample inputs\<close>

text \<open>Concrete payloads, files and states, used where a property is run on an input.\<close>

definition payload_of_years :: "int list \<Rightarrow> payload" where
  "payload_of_years ys =
     \<lparr>years = ys, revenue = None, revenue_growth = None, cost_of_sales = None,
      cost_ratio = None, gross_profit_margin = None, eps_growth = None, net_profit = None,
      net_asset_per_share = None, shareholders = None\<rparr>"

definition report_pdf :: selected_file where
  "report_pdf = \<lparr>file_name = ''annual-report-2023.pdf'', file_type = ''application/pdf''\<rparr>"

definition notes_txt :: selected_file where
  "notes_txt = \<lparr>file_name = ''notes.txt'', file_type = ''text/plain''\<rparr>"

definition holder :: "string \<Rightarrow> rat \<Rightarrow> shareholder" where
  "holder n p = \<lparr>name = n, ownership_percentage = p\<rparr>"

definition filter_pending :: "payload orchestrator" where
  "filter_pending =
     \<lparr>data = Some (payload_of_years [2023]), isLoading = True, error = None,
      filters = filters_init\<lparr>currency := ''USD''\<rparr>,
      in_flight = [(1, FilterRequest (filters_init\<lparr>currency := ''USD''\<rparr>))], issued = 2\<rparr>"

definition two_pending :: "payload orchestrator" where
  "two_pending =
     \<lparr>data = None, isLoading = True, error = None,
      filters = filters_init\<lparr>industry := ''Retail''\<rparr>,
      in_flight = [(0, FilterRequest (filters_init\<lparr>industry := ''Leisure''\<rparr>)),
                   (1, FilterRequest (filters_init\<lparr>industry := ''Retail''\<rparr>))],
      issued = 2\<rparr>"

definition six_years :: dataset where
  "six_years =
     \<lparr>records = map (\<lambda>y. \<lparr>year = y, yr_revenue = 100, yr_cost_of_sales = 60\<rparr>) availableYears,
      ds_currency = ''LKR''\<rparr>"

definition sample_tables :: payload where
  "sample_tables =
     (payload_of_years [2019, 2020])
       \<lparr>revenue := Some [Number (Fin 100), Number (Fin 80)],
        revenue_growth := Some [Number (Fin (- 20))],
        cost_of_sales := Some [Number (Fin 60), Number (Fin 60)],
        gross_profit_margin := Some [Number (Fin 20), Number (Fin 25)],
        eps_growth := Some [Number (Fin 10)],
        net_asset_per_share := Some [Number (Fin 100), Number (Fin 80)]\<rparr>"

definition zero_revenue_year :: payload where
  "zero_revenue_year =
     (payload_of_years [2019, 2020])
       \<lparr>revenue := Some [Number (Fin 0), Number (Fin 80)],
        cost_of_sales := Some [Number (Fin 5), Number (Fin 60)],
        cost_ratio := Some [Null, Number (Fin 75)]\<rparr>"

section \<open>Ranking: sorted, stable, truncated\<close>

lemma insert_by_insort:
  "insert_by by_ownership_desc x ys = insort_key (\<lambda>s. - ownership_percentage s) x ys"
  by (induction ys) (simp_all add: by_ownership_desc_def)

lemma sortedShareholders_sort_key:
  "sortedShareholders yd = sort_key (\<lambda>s. - ownership_percentage s) yd"
  by (induction yd) (simp_all add: sortedShareholders_def js_sort_def insert_by_insort)

lemma sorted_wrt_desc_iff:
  "sorted_wrt (\<lambda>a b. ownership_percentage b \<le> ownership_percentage a) xs
     = sorted (map (\<lambda>s. - ownership_percentage s) xs)"
  by (induction xs) auto

lemma sortedShareholders_desc:
  "sorted_wrt (\<lambda>a b. ownership_percentage b \<le> ownership_percentage a) (sortedShareholders yd)"
  by (simp add: sorted_wrt_desc_iff sortedShareholders_sort_key)

lemma sortedShareholders_stable:
  "filter (\<lambda>s. ownership_percentage s = p) (sortedShareholders yd)
     = filter (\<lambda>s. ownership_percentage s = p) yd"
proof -
  have "filter (\<lambda>s. - ownership_percentage s = - p) (sort_key (\<lambda>s. - ownership_percentage s) yd)
          = filter (\<lambda>s. - ownership_percentage s = - p) yd"
    by (rule sort_key_stable)
  then show ?thesis by (simp add: sortedShareholders_sort_key)
qed

lemma sortedShareholders_fixpoint:
  assumes "sorted_wrt (\<lambda>a b. ownership_percentage b \<le> ownership_percentage a) xs"
  shows "sortedShareholders xs = xs"
  using assms by (simp add: sorted_wrt_desc_iff sortedShareholders_sort_key sort_key_id_if_sorted)

text \<open>
  C2. The ranking of one year's shareholder entries is the list sorted by ownership
  percentage, descending, by a stable sort (entries of equal percentage keep their input
  order, and no entry is lost or invented), cut to its first 10 entries: at most 10.
\<close>

theorem top10Shareholders_ranking:
  "top10Shareholders yd = take 10 (sortedShareholders yd)
   \<and> length (top10Shareholders yd) \<le> 10
   \<and> length (top10Shareholders yd) = min 10 (length yd)
   \<and> mset (sortedShareholders yd) = mset yd
   \<and> sorted_wrt (\<lambda>a b. ownership_percentage b \<le> ownership_percentage a) (sortedShareholders yd)
   \<and> sorted_wrt (\<lambda>a b. ownership_percentage b \<le> ownership_percentage a) (top10Shareholders yd)
   \<and> (\<forall>p. filter (\<lambda>s. ownership_percentage s = p) (sortedShareholders yd)
            = filter (\<lambda>s. ownership_percentage s = p) yd)"
proof -
  have len: "length (sortedShareholders yd) = length yd"
    by (simp add: sortedShareholders_sort_key)
  have perm: "mset (sortedShareholders yd) = mset yd"
    by (simp add: sortedShareholders_sort_key)
  have top: "sorted_wrt (\<lambda>a b. ownership_percentage b \<le> ownership_percentage a)
               (take 10 (sortedShareholders yd))"
    by (rule sorted_wrt_take [OF sortedShareholders_desc])
  show ?thesis
    using len perm top sortedShareholders_desc [of yd] sortedShareholders_stable [of _ yd]
    by (simp add: top10Shareholders_def topShareholders_def min.commute)
qed

text \<open>The scenario of two entries with the same percentage 5: A stays in front of C.\<close>

theorem top10Shareholders_ranking_witness:
  "top10Shareholders [holder ''A'' 5, holder ''B'' 7, holder ''C'' 5]
     = [holder ''B'' 7, holder ''A'' 5, holder ''C'' 5]
   \<and> mset (sortedShareholders [holder ''A'' 5, holder ''B'' 7, holder ''C'' 5])
     = mset [holder ''A'' 5, holder ''B'' 7, holder ''C'' 5]"
  using top10Shareholders_ranking [of "[holder ''A'' 5, holder ''B'' 7, holder ''C'' 5]"]
  by (simp add: sortedShareholders_def js_sort_def by_ownership_desc_def holder_def)

text \<open>
  C7. Ranking is idempotent: ranking and truncating to \<open>n\<close> entries a list that is
  already the result of ranking and truncating to \<open>n\<close> returns it unchanged; so it is
  for the component's own \<open>n = 10\<close>.
\<close>

theorem topShareholders_idempotent:
  "topShareholders n (topShareholders n yd) = topShareholders n yd
   \<and> top10Shareholders (top10Shareholders yd) = top10Shareholders yd"
proof -
  have idem: "topShareholders m (topShareholders m xs) = topShareholders m xs" for m xs
  proof -
    have "sorted_wrt (\<lambda>a b. ownership_percentage b \<le> ownership_percentage a)
            (take m (sortedShareholders xs))"
      by (rule sorted_wrt_take [OF sortedShareholders_desc])
    then have "sortedShareholders (take m (sortedShareholders xs)) = take m (sortedShareholders xs)"
      by (rule sortedShareholders_fixpoint)
    then show ?thesis by (simp add: topShareholders_def)
  qed
  show ?thesis by (simp add: idem top10Shareholders_def)
qed

theorem topShareholders_idempotent_witness:
  "topShareholders 2 [holder ''A'' 5, holder ''B'' 7, holder ''C'' 5]
     = [holder ''B'' 7, holder ''A'' 5]
   \<and> topShareholders 2 (topShareholders 2 [holder ''A'' 5, holder ''B'' 7, holder ''C'' 5])
     = [holder ''B'' 7, holder ''A'' 5]"
  using topShareholders_idempotent [of 2 "[holder ''A'' 5, holder ''B'' 7, holder ''C'' 5]"]
  by (simp add: topShareholders_def sortedShareholders_def js_sort_def by_ownership_desc_def
      holder_def)

section \<open>TopShareholders: a missing table or entry\<close>

lemma at_index_None_iff: "at_index xs i = None \<longleftrightarrow> i < 0 \<or> int (length xs) \<le> i"
  by (auto simp: at_index_def)

lemma indexOf_from_not_found: "v \<notin> Some ` set ys \<Longrightarrow> indexOf_from ys v i = - 1"
  by (induction ys arbitrary: i) auto

text \<open>A selected year that is not among the payload's years has index \<open>-1\<close>.\<close>

lemma yearIndex_not_found: "sel \<notin> Some ` set (years d) \<Longrightarrow> yearIndex d sel = - 1"
  by (simp add: yearIndex_def indexOf_def indexOf_from_not_found)

lemma initialSelectedYear_last:
  "years d \<noteq> [] \<Longrightarrow> initialSelectedYear d = Some (last (years d))"
  by (simp add: initialSelectedYear_def at_index_def last_conv_nth nat_diff_distrib')

lemma initialSelectedYear_none: "years d = [] \<Longrightarrow> initialSelectedYear d = None"
  by (simp add: initialSelectedYear_def at_index_def)

text \<open>
  C10. When the payload has no shareholders table, or the table has no entry at the index
  of the selected year (the index is \<open>-1\<close> or another negative number, or lies beyond
  the table, or the entry is \<^verbatim>\<open>null\<close>), the lookup gives the empty list and the
  component renders the no-data message, not the chart. The lookup is total: every read
  outside the table is the explicit \<open>None\<close> of \<open>at_index\<close>.
\<close>

theorem TopShareholders_no_data:
  assumes "shareholders d = None
           \<or> (\<exists>tbl. shareholders d = Some tbl
                 \<and> (yearIndex d sel < 0 \<or> int (length tbl) \<le> yearIndex d sel
                    \<or> at_index tbl (yearIndex d sel) = Some None))"
  shows "yearData d sel = [] \<and> TopShareholders_render d sel = NoDataMessage sel"
proof -
  have "yearData d sel = []"
    using assms by (auto simp: yearData_def at_index_def split: option.splits)
  then show ?thesis by (simp add: TopShareholders_render_def)
qed

text \<open>Two years, a table with one entry, the second year selected.\<close>

theorem TopShareholders_no_data_witness:
  "yearIndex ((payload_of_years [2023, 2024])
       \<lparr>shareholders := Some [Some [holder ''A'' 5]]\<rparr>) (Some 2024) = 1
   \<and> yearData ((payload_of_years [2023, 2024])
       \<lparr>shareholders := Some [Some [holder ''A'' 5]]\<rparr>) (Some 2024) = []
   \<and> TopShareholders_render ((payload_of_years [2023, 2024])
       \<lparr>shareholders := Some [Some [holder ''A'' 5]]\<rparr>) (Some 2024)
      = NoDataMessage (Some 2024)"
  using TopShareholders_no_data [of "(payload_of_years [2023, 2024])
       \<lparr>shareholders := Some [Some [holder ''A'' 5]]\<rparr>" "Some 2024"]
  by (simp add: payload_of_years_def yearIndex_def indexOf_def)

section \<open>UploadForm: only PDF files reach the callback\<close>

lemma form_step_inv:
  assumes "\<forall>f \<in> set (files st). is_pdf f" "form_step st e = (st', call)"
  shows "(\<forall>f \<in> set (files st'). is_pdf f)
         \<and> (\<forall>c. call = Some c \<longrightarrow> c \<noteq> [] \<and> (\<forall>f \<in> set c. is_pdf f))"
  using assms
  by (cases e) (auto simp: handleFileChange_def handleSubmit_def Let_def split: if_splits)

lemma form_run_inv:
  assumes "\<forall>f \<in> set (files st). is_pdf f" "form_run st es = (st', calls)"
  shows "(\<forall>f \<in> set (files st'). is_pdf f)
         \<and> (\<forall>c \<in> set calls. c \<noteq> [] \<and> (\<forall>f \<in> set c. is_pdf f))"
  using assms
proof (induction es arbitrary: st st' calls)
  case Nil
  then show ?case by simp
next
  case (Cons e es)
  obtain st1 call where s1: "form_step st e = (st1, call)" by (cases "form_step st e")
  obtain st2 calls2 where s2: "form_run st1 es = (st2, calls2)" by (cases "form_run st1 es")
  from form_step_inv [OF Cons.prems(1) s1]
  have inv1: "\<forall>f \<in> set (files st1). is_pdf f"
    and c1: "\<forall>c. call = Some c \<longrightarrow> c \<noteq> [] \<and> (\<forall>f \<in> set c. is_pdf f)" by blast+
  from Cons.IH [OF inv1 s2]
  have inv2: "\<forall>f \<in> set (files st2). is_pdf f"
    and c2: "\<forall>c \<in> set calls2. c \<noteq> [] \<and> (\<forall>f \<in> set c. is_pdf f)" by blast+
  from Cons.prems(2) s1 s2
  have "st' = st2" and "calls = (case call of None \<Rightarrow> calls2 | Some c \<Rightarrow> c # calls2)"
    by simp_all
  with inv2 c1 c2 show ?case by (cases call) auto
qed

lemma non_pdf_selection:
  assumes "\<exists>f \<in> set sel. \<not> is_pdf f"
  shows "length (filter is_pdf sel) \<noteq> length sel"
proof -
  from assms obtain f where "f \<in> set sel" "\<not> is_pdf f" by blast
  then have "length (filter is_pdf sel) < length sel" by (rule length_filter_less)
  then show ?thesis by simp
qed

text \<open>
  C9. Whatever the sequence of file selections and submits, starting from the form's
  initial state, every list the upload callback is invoked with is non-empty and holds
  only files of type application/pdf; and a selection with a file of another type leaves
  the stored file list as it was and sets only the message.
\<close>

theorem onUpload_only_pdf:
  "(form_run upload_form_init es = (st, calls) \<longrightarrow>
      (\<forall>c \<in> set calls. c \<noteq> [] \<and> (\<forall>f \<in> set c. file_type f = ''application/pdf'')))
   \<and> ((\<exists>f \<in> set sel. file_type f \<noteq> ''application/pdf'') \<longrightarrow>
        handleFileChange st0 sel = st0\<lparr>message := [Lit ''Please select only PDF files.'']\<rparr>
        \<and> files (handleFileChange st0 sel) = files st0)"
proof (intro conjI impI)
  assume "form_run upload_form_init es = (st, calls)"
  moreover have "\<forall>f \<in> set (files upload_form_init). is_pdf f"
    by (simp add: upload_form_init_def)
  ultimately show "\<forall>c \<in> set calls. c \<noteq> [] \<and> (\<forall>f \<in> set c. file_type f = ''application/pdf'')"
    using form_run_inv [of upload_form_init es st calls] by (simp add: is_pdf_def)
next
  assume "\<exists>f \<in> set sel. file_type f \<noteq> ''application/pdf''"
  then have ne: "length (filter is_pdf sel) \<noteq> length sel"
    using non_pdf_selection [of sel] by (simp add: is_pdf_def)
  then show "handleFileChange st0 sel = st0\<lparr>message := [Lit ''Please select only PDF files.'']\<rparr>"
    by (simp add: handleFileChange_def)
  from ne show "files (handleFileChange st0 sel) = files st0"
    by (simp add: handleFileChange_def)
qed

text \<open>A PDF is selected, then a PDF with a text file, then the form is submitted.\<close>

theorem onUpload_only_pdf_witness:
  "form_run upload_form_init [FileChange [report_pdf], FileChange [report_pdf, notes_txt], Submit]
     = (\<lparr>files = [report_pdf], message = [Lit ''Please select only PDF files.'']\<rparr>,
        [[report_pdf]])
   \<and> file_type report_pdf = ''application/pdf''
   \<and> file_type notes_txt \<noteq> ''application/pdf''
   \<and> handleFileChange \<lparr>files = [report_pdf], message = []\<rparr> [report_pdf, notes_txt]
     = \<lparr>files = [report_pdf], message = [Lit ''Please select only PDF files.'']\<rparr>"
  using onUpload_only_pdf
    [of "[FileChange [report_pdf], FileChange [report_pdf, notes_txt], Submit]"
        "\<lparr>files = [report_pdf], message = [Lit ''Please select only PDF files.'']\<rparr>"
        "[[report_pdf]]" "[report_pdf, notes_txt]" "\<lparr>files = [report_pdf], message = []\<rparr>"]
  by (simp add: upload_form_init_def handleFileChange_def handleSubmit_def is_pdf_def
      report_pdf_def notes_txt_def)

section \<open>App: responses and failures\<close>

lemma step_data:
  "step s e = Some s' \<Longrightarrow> data s' = (case e of Resolved k d \<Rightarrow> Some d | _ \<Rightarrow> data s)"
  by (cases e) (auto simp: send_def settle_def split: option.splits request.splits)

lemma run_data:
  "run s es = Some s' \<Longrightarrow>
     data s' = (case last_resolved es of None \<Rightarrow> data s | Some d \<Rightarrow> Some d)"
proof (induction es arbitrary: s)
  case Nil
  then show ?case by simp
next
  case (Cons e es)
  then obtain s1 where s1: "step s e = Some s1" and r: "run s1 es = Some s'"
    by (auto split: option.splits)
  from Cons.IH [OF r] step_data [OF s1] show ?case
    by (cases "last_resolved es") (auto split: event.splits)
qed

text \<open>
  Against C5 as stated. Two filter changes are made; they are requests 0 and 1. The
  response of request 1 arrives and is stored; then the response of request 0 arrives, and
  the application stores it too: the dataset shown in the end is the answer to the older
  request. Nothing in \<^verbatim>\<open>handleFileUpload\<close> or \<^verbatim>\<open>fetchFilteredData\<close> compares a
  sequence number.
\<close>

theorem stale_response_counterexample:
  "map_option in_flight
     (run (app_init :: payload orchestrator)
        [HandleFilterChange (filters_init\<lparr>industry := ''Leisure''\<rparr>),
         HandleFilterChange (filters_init\<lparr>industry := ''Retail''\<rparr>)])
     = Some [(0, FilterRequest (filters_init\<lparr>industry := ''Leisure''\<rparr>)),
             (1, FilterRequest (filters_init\<lparr>industry := ''Retail''\<rparr>))]
   \<and> map_option data
     (run app_init
        [HandleFilterChange (filters_init\<lparr>industry := ''Leisure''\<rparr>),
         HandleFilterChange (filters_init\<lparr>industry := ''Retail''\<rparr>),
         Resolved 1 (payload_of_years [2024]),
         Resolved 0 (payload_of_years [2023])])
     = Some (Some (payload_of_years [2023]))"
  by (simp add: app_init_def send_def settle_def)

text \<open>
  C5, amended. The last completion wins: whenever an awaited request, whatever its
  number and whatever has been sent since, is fulfilled, its response becomes the current
  dataset; so after any sequence of events the current dataset is the response of the
  last request fulfilled in it (or the dataset held before, if none was).
\<close>

theorem last_completion_wins:
  "(map_of (in_flight s) k \<noteq> None \<longrightarrow>
      (\<exists>s'. step s (Resolved k d) = Some s' \<and> data s' = Some d))
   \<and> (run s es = Some s'' \<longrightarrow>
        data s'' = (case last_resolved es of None \<Rightarrow> data s | Some d' \<Rightarrow> Some d'))"
proof (intro conjI impI)
  assume "map_of (in_flight s) k \<noteq> None"
  then obtain r where "map_of (in_flight s) k = Some r" by blast
  then show "\<exists>s'. step s (Resolved k d) = Some s' \<and> data s' = Some d"
    by (simp add: settle_def)
next
  assume "run s es = Some s''"
  then show "data s'' = (case last_resolved es of None \<Rightarrow> data s | Some d' \<Rightarrow> Some d')"
    by (rule run_data)
qed

text \<open>With requests 0 and 1 awaited, the response of request 0 is stored, also after 1's.\<close>

theorem last_completion_wins_witness:
  "map_of (in_flight two_pending) 0 \<noteq> None
   \<and> issued two_pending = 2
   \<and> map_option data (step two_pending (Resolved 0 (payload_of_years [2023])))
     = Some (Some (payload_of_years [2023]))
   \<and> map_option data
       (run two_pending [Resolved 1 (payload_of_years [2024]), Resolved 0 (payload_of_years [2023])])
     = Some (Some (payload_of_years [2023]))"
  using last_completion_wins
    [of two_pending 0 "payload_of_years [2023]"
        "[Resolved 1 (payload_of_years [2024]), Resolved 0 (payload_of_years [2023])]"
        "two_pending\<lparr>data := Some (payload_of_years [2023]), isLoading := False,
                     in_flight := []\<rparr>"]
  by (simp add: two_pending_def settle_def)

text \<open>
  C6. When an awaited upload or filter request fails, the application sets its error
  message and stops loading while the dataset it held is left as it was, so the main
  content shows the dashboard of that dataset (or the upload prompt when none was held);
  and the only event that changes the dataset is the fulfilment of an awaited request,
  which stores its response.
\<close>

theorem failure_keeps_dataset:
  "(map_of (in_flight s) k \<noteq> None \<longrightarrow> (\<exists>s'. step s (Rejected k) = Some s'))
   \<and> (step s (Rejected k) = Some s' \<longrightarrow>
        data s' = data s
        \<and> (error s' = Some ''Failed to upload files. Please try again.''
           \<or> error s' = Some ''Failed to filter data. Please try again.'')
        \<and> isLoading s' = False
        \<and> main_content s' = (case data s of None \<Rightarrow> UploadPrompt | Some d \<Rightarrow> Dashboard d))
   \<and> (step s e = Some s'' \<and> data s'' \<noteq> data s \<longrightarrow>
        (\<exists>j d. e = Resolved j d \<and> map_of (in_flight s) j \<noteq> None \<and> data s'' = Some d))"
proof (intro conjI impI)
  assume "map_of (in_flight s) k \<noteq> None"
  then show "\<exists>s'. step s (Rejected k) = Some s'"
    by (auto split: option.splits request.splits)
next
  assume r: "step s (Rejected k) = Some s'"
  then show "data s' = data s"
    by (auto simp: settle_def split: option.splits request.splits)
  from r show "error s' = Some ''Failed to upload files. Please try again.''
           \<or> error s' = Some ''Failed to filter data. Please try again.''"
    by (auto simp: settle_def split: option.splits request.splits)
  from r show "isLoading s' = False"
    by (auto simp: settle_def split: option.splits request.splits)
  from r show "main_content s' = (case data s of None \<Rightarrow> UploadPrompt | Some d \<Rightarrow> Dashboard d)"
    by (auto simp: settle_def main_content_def split: option.splits request.splits)
next
  assume "step s e = Some s'' \<and> data s'' \<noteq> data s"
  then show "\<exists>j d. e = Resolved j d \<and> map_of (in_flight s) j \<noteq> None \<and> data s'' = Some d"
    by (cases e) (auto simp: send_def settle_def split: option.splits request.splits)
qed

text \<open>A dataset for 2023 is held and a filter request is awaited; it fails, or succeeds.\<close>

theorem failure_keeps_dataset_witness:
  "map_of (in_flight filter_pending) 1 \<noteq> None
   \<and> step filter_pending (Rejected 1)
     = Some (filter_pending\<lparr>error := Some ''Failed to filter data. Please try again.'',
                            isLoading := False, in_flight := []\<rparr>)
   \<and> data (filter_pending\<lparr>error := Some ''Failed to filter data. Please try again.'',
                          isLoading := False, in_flight := []\<rparr>)
     = Some (payload_of_years [2023])
   \<and> main_content (filter_pending\<lparr>error := Some ''Failed to filter data. Please try again.'',
                                  isLoading := False, in_flight := []\<rparr>)
     = Dashboard (payload_of_years [2023])
   \<and> step filter_pending (Resolved 1 (payload_of_years [2024]))
     = Some (filter_pending\<lparr>data := Some (payload_of_years [2024]), isLoading := False,
                            in_flight := []\<rparr>)
   \<and> payload_of_years [2024] \<noteq> payload_of_years [2023]"
  using failure_keeps_dataset
    [of filter_pending 1
        "filter_pending\<lparr>error := Some ''Failed to filter data. Please try again.'',
                        isLoading := False, in_flight := []\<rparr>"
        "Resolved 1 (payload_of_years [2024])"
        "filter_pending\<lparr>data := Some (payload_of_years [2024]), isLoading := False,
                        in_flight := []\<rparr>"]
  by (simp add: filter_pending_def settle_def main_content_def payload_of_years_def)

section \<open>Year-over-year figures in the tooltips\<close>

lemma NetAssetShare_first: "NetAssetShare_afterLabel d 0 0 = TNull"
  by (simp add: NetAssetShare_afterLabel_def split: option.splits)

lemma NetAssetShare_growth:
  assumes "net_asset_per_share d = Some tbl" "0 < i" "i < length tbl"
    "tbl ! i = Number (Fin c)" "tbl ! (i - 1) = Number (Fin p)" "p \<noteq> 0"
  shows "NetAssetShare_afterLabel d 0 i =
           TArray [[Lit ''YoY Change: '', plus_sign (Fin (c - p)), Fixed 2 (Fin (c - p)),
                    Lit '' LKR''],
                   [Lit ''YoY Growth: '', Fixed 1 (Fin ((c - p) / p * 100)), Lit ''%'']]"
  using assms by (simp add: NetAssetShare_afterLabel_def element_def Let_def)

lemma NetAssetShare_present_iff:
  "net_asset_per_share d = Some tbl \<Longrightarrow> (NetAssetShare_afterLabel d 0 i \<noteq> TNull) = (0 < i)"
  by (simp add: NetAssetShare_afterLabel_def Let_def)

lemma count_positive: "length (filter (\<lambda>i. 0 < i) [0..<n]) = n - 1"
  by (induction n) auto

lemma NetAssetShare_count:
  assumes "net_asset_per_share d = Some tbl"
  shows "length (filter (\<lambda>i. NetAssetShare_afterLabel d 0 i \<noteq> TNull) [0..<length tbl])
           = length tbl - 1"
  using NetAssetShare_present_iff [OF assms] by (simp add: count_positive)

lemma GPMargin_first: "GPMargin_afterLabel d 0 0 = TNull"
  by (simp add: GPMargin_afterLabel_def split: option.splits)

lemma GPMargin_change:
  assumes "gross_profit_margin d = Some tbl" "0 < i" "i < length tbl"
    "tbl ! i = Number (Fin c)" "tbl ! (i - 1) = Number (Fin p)"
  shows "GPMargin_afterLabel d 0 i =
           TString [Lit ''YoY Change: '', plus_sign (Fin (c - p)), Fixed 2 (Fin (c - p)),
                    Lit '' percentage points'']"
  using assms by (simp add: GPMargin_afterLabel_def element_def Let_def)

lemma RevenueTrend_first: "RevenueTrend_afterLabel d 0 = TNull"
  by (simp add: RevenueTrend_afterLabel_def)

lemma RevenueTrend_growth:
  assumes "revenue_growth d = Some gs" "0 < i" "i - 1 < length gs"
    "gs ! (i - 1) = Number (Fin g)" "g \<noteq> 0"
  shows "RevenueTrend_afterLabel d i =
           TString [Lit ''YoY Growth: '', plus_sign (Fin g), Fixed 1 (Fin g), Lit ''%'']"
  using assms by (simp add: RevenueTrend_afterLabel_def guarded_element_def element_def Let_def)

lemma EPSTrend_first: "EPSTrend_afterLabel d 0 = TArray (net_profit_lines d 0)"
  by (simp add: EPSTrend_afterLabel_def net_profit_lines_def)

lemma EPSTrend_growth:
  assumes "eps_growth d = Some gs" "0 < i" "i - 1 < length gs"
    "gs ! (i - 1) = Number (Fin g)" "g \<noteq> 0"
  shows "EPSTrend_afterLabel d i =
           TArray (net_profit_lines d i
                   @ [[Lit ''YoY Growth: '', plus_sign (Fin g), Fixed 1 (Fin g), Lit ''%'']])"
  using assms
  by (simp add: EPSTrend_afterLabel_def net_profit_lines_def guarded_element_def element_def
      Let_def)

text \<open>
  Against C1 as stated. For gross margin 20 then 25, the year-over-year figure of the
  second year is the difference 5 (percentage points), where the claimed formula gives 25.
  For revenue 100 then 80 with a payload growth entry of 7, the figure shown is the
  payload's 7, where the formula gives -20: the component does not compute it.
\<close>

theorem yoy_growth_counterexample:
  "GPMargin_afterLabel
     ((payload_of_years [2023, 2024])
        \<lparr>gross_profit_margin := Some [Number (Fin 20), Number (Fin 25)]\<rparr>) 0 1
     = TString [Lit ''YoY Change: '', Lit ''+'', Fixed 2 (Fin 5), Lit '' percentage points'']
   \<and> ((25 - 20) / 20 * 100 :: rat) = 25
   \<and> RevenueTrend_afterLabel
       ((payload_of_years [2023, 2024])
          \<lparr>revenue := Some [Number (Fin 100), Number (Fin 80)],
           revenue_growth := Some [Number (Fin 7)]\<rparr>) 1
     = TString [Lit ''YoY Growth: '', Lit ''+'', Fixed 1 (Fin 7), Lit ''%'']
   \<and> ((80 - 100) / 100 * 100 :: rat) = - 20"
  by (simp add: GPMargin_afterLabel_def RevenueTrend_afterLabel_def payload_of_years_def
      element_def guarded_element_def plus_sign_def Let_def)

text \<open>
  C1, amended. No chart gives a year-over-year figure for the first year in view. For
  net asset per share the component computes, for every later year \<open>i\<close> with finite
  values and a previous value that is not zero, the growth
  \<open>(value[i] - value[i-1]) / value[i-1] * 100\<close>, so exactly length minus one years of a
  view carry one. For gross margin the figure computed is the difference
  \<open>value[i] - value[i-1]\<close>, in percentage points. For revenue and EPS nothing is
  computed: the figure of year \<open>i\<close> is the entry \<open>i - 1\<close> of the payload's growth
  table, shown when it is a number other than zero.
\<close>

theorem yoy_growth_in_tooltips:
  "NetAssetShare_afterLabel d 0 0 = TNull
   \<and> GPMargin_afterLabel d 0 0 = TNull
   \<and> RevenueTrend_afterLabel d 0 = TNull
   \<and> EPSTrend_afterLabel d 0 = TArray (net_profit_lines d 0)
   \<and> (net_asset_per_share d = Some tbl \<longrightarrow>
        length (filter (\<lambda>j. NetAssetShare_afterLabel d 0 j \<noteq> TNull) [0..<length tbl])
          = length tbl - 1)
   \<and> (net_asset_per_share d = Some tbl \<and> 0 < i \<and> i < length tbl
        \<and> tbl ! i = Number (Fin c) \<and> tbl ! (i - 1) = Number (Fin p) \<and> p \<noteq> 0 \<longrightarrow>
        NetAssetShare_afterLabel d 0 i =
          TArray [[Lit ''YoY Change: '', plus_sign (Fin (c - p)), Fixed 2 (Fin (c - p)),
                   Lit '' LKR''],
                  [Lit ''YoY Growth: '', Fixed 1 (Fin ((c - p) / p * 100)), Lit ''%'']])
   \<and> (gross_profit_margin d = Some gtbl \<and> 0 < i \<and> i < length gtbl
        \<and> gtbl ! i = Number (Fin gc) \<and> gtbl ! (i - 1) = Number (Fin gp) \<longrightarrow>
        GPMargin_afterLabel d 0 i =
          TString [Lit ''YoY Change: '', plus_sign (Fin (gc - gp)), Fixed 2 (Fin (gc - gp)),
                   Lit '' percentage points''])
   \<and> (revenue_growth d = Some rg \<and> 0 < i \<and> i - 1 < length rg
        \<and> rg ! (i - 1) = Number (Fin g) \<and> g \<noteq> 0 \<longrightarrow>
        RevenueTrend_afterLabel d i =
          TString [Lit ''YoY Growth: '', plus_sign (Fin g), Fixed 1 (Fin g), Lit ''%''])
   \<and> (eps_growth d = Some eg \<and> 0 < i \<and> i - 1 < length eg
        \<and> eg ! (i - 1) = Number (Fin h) \<and> h \<noteq> 0 \<longrightarrow>
        EPSTrend_afterLabel d i =
          TArray (net_profit_lines d i
                  @ [[Lit ''YoY Growth: '', plus_sign (Fin h), Fixed 1 (Fin h), Lit ''%'']]))"
proof (intro conjI impI)
  show "NetAssetShare_afterLabel d 0 0 = TNull" by (rule NetAssetShare_first)
  show "GPMargin_afterLabel d 0 0 = TNull" by (rule GPMargin_first)
  show "RevenueTrend_afterLabel d 0 = TNull" by (rule RevenueTrend_first)
  show "EPSTrend_afterLabel d 0 = TArray (net_profit_lines d 0)" by (rule EPSTrend_first)
next
  assume "net_asset_per_share d = Some tbl"
  then show "length (filter (\<lambda>j. NetAssetShare_afterLabel d 0 j \<noteq> TNull) [0..<length tbl])
               = length tbl - 1"
    by (rule NetAssetShare_count)
next
  assume "net_asset_per_share d = Some tbl \<and> 0 < i \<and> i < length tbl
        \<and> tbl ! i = Number (Fin c) \<and> tbl ! (i - 1) = Number (Fin p) \<and> p \<noteq> 0"
  then show "NetAssetShare_afterLabel d 0 i =
          TArray [[Lit ''YoY Change: '', plus_sign (Fin (c - p)), Fixed 2 (Fin (c - p)),
                   Lit '' LKR''],
                  [Lit ''YoY Growth: '', Fixed 1 (Fin ((c - p) / p * 100)), Lit ''%'']]"
    by (simp add: NetAssetShare_growth)
next
  assume "gross_profit_margin d = Some gtbl \<and> 0 < i \<and> i < length gtbl
        \<and> gtbl ! i = Number (Fin gc) \<and> gtbl ! (i - 1) = Number (Fin gp)"
  then show "GPMargin_afterLabel d 0 i =
          TString [Lit ''YoY Change: '', plus_sign (Fin (gc - gp)), Fixed 2 (Fin (gc - gp)),
                   Lit '' percentage points'']"
    by (simp add: GPMargin_change)
next
  assume "revenue_growth d = Some rg \<and> 0 < i \<and> i - 1 < length rg
        \<and> rg ! (i - 1) = Number (Fin g) \<and> g \<noteq> 0"
  then show "RevenueTrend_afterLabel d i =
          TString [Lit ''YoY Growth: '', plus_sign (Fin g), Fixed 1 (Fin g), Lit ''%'']"
    by (simp add: RevenueTrend_growth)
next
  assume "eps_growth d = Some eg \<and> 0 < i \<and> i - 1 < length eg
        \<and> eg ! (i - 1) = Number (Fin h) \<and> h \<noteq> 0"
  then show "EPSTrend_afterLabel d i =
          TArray (net_profit_lines d i
                  @ [[Lit ''YoY Growth: '', plus_sign (Fin h), Fixed 1 (Fin h), Lit ''%'']])"
    by (simp add: EPSTrend_growth)
qed

text \<open>Two years: net asset per share 100 then 80, gross margin 20 then 25.\<close>

theorem yoy_growth_in_tooltips_witness:
  "NetAssetShare_afterLabel sample_tables 0 1
     = TArray [[Lit ''YoY Change: '', Lit [], Fixed 2 (Fin (- 20)), Lit '' LKR''],
               [Lit ''YoY Growth: '', Fixed 1 (Fin (- 20)), Lit ''%'']]
   \<and> NetAssetShare_afterLabel sample_tables 0 0 = TNull
   \<and> length (filter (\<lambda>j. NetAssetShare_afterLabel sample_tables 0 j \<noteq> TNull) [0, 1]) = 1
   \<and> GPMargin_afterLabel sample_tables 0 1
     = TString [Lit ''YoY Change: '', Lit ''+'', Fixed 2 (Fin 5), Lit '' percentage points'']
   \<and> RevenueTrend_afterLabel sample_tables 1
     = TString [Lit ''YoY Growth: '', Lit [], Fixed 1 (Fin (- 20)), Lit ''%'']
   \<and> EPSTrend_afterLabel sample_tables 1
     = TArray [[Lit ''YoY Growth: '', Lit ''+'', Fixed 1 (Fin 10), Lit ''%'']]"
  using yoy_growth_in_tooltips
    [where d = sample_tables and tbl = "[Number (Fin 100), Number (Fin 80)]" and i = 1
       and c = 80 and p = 100 and gtbl = "[Number (Fin 20), Number (Fin 25)]"
       and gc = 25 and gp = 20 and rg = "[Number (Fin (- 20))]" and g = "- 20"
       and eg = "[Number (Fin 10)]" and h = 10]
  by (simp add: sample_tables_def payload_of_years_def plus_sign_def net_profit_lines_def
      guarded_element_def NetAssetShare_afterLabel_def element_def)

section \<open>A figure of exactly zero\<close>

text \<open>The value line of RevenueTrend carries the value with its unit.\<close>

lemma RevenueTrend_label_value:
  "RevenueTrend_label (Some y)
     = [Lit ''Revenue (Billions)'', Lit '': '', Fixed 2 y, Lit '' Billion'']"
  by (simp add: RevenueTrend_label_def)


text \<open>
  C8. The tooltip of a year is to carry, next to the value, the growth or ratio figure
  wherever the series defines one, a figure of exactly zero included. The components that
  read the figure from the payload test it for truthiness, and zero is falsy: with a
  revenue growth of exactly 0 for the second year the tooltip of RevenueTrend has no
  growth line, EPSTrend's has none for an EPS growth of 0, and CostExpenses' has no ratio
  line for a ratio of 0. NetAssetShare, which computes its figure, does show a growth
  of 0.
\<close>

theorem zero_figure_not_shown:
  "RevenueTrend_afterLabel
     ((payload_of_years [2023, 2024])
        \<lparr>revenue := Some [Number (Fin 100), Number (Fin 100)],
         revenue_growth := Some [Number (Fin 0)]\<rparr>) 1 = TNull
   \<and> EPSTrend_afterLabel
       ((payload_of_years [2023, 2024])\<lparr>eps_growth := Some [Number (Fin 0)]\<rparr>) 1 = TArray []
   \<and> CostExpenses_afterBody
       ((payload_of_years [2023, 2024])\<lparr>cost_ratio := Some [Number (Fin 50), Number (Fin 0)]\<rparr>) 1
     = TNull
   \<and> NetAssetShare_afterLabel
       ((payload_of_years [2023, 2024])
          \<lparr>net_asset_per_share := Some [Number (Fin 100), Number (Fin 100)]\<rparr>) 0 1
     = TArray [[Lit ''YoY Change: '', Lit [], Fixed 2 (Fin 0), Lit '' LKR''],
               [Lit ''YoY Growth: '', Fixed 1 (Fin 0), Lit ''%'']]"
  by (simp add: RevenueTrend_afterLabel_def EPSTrend_afterLabel_def CostExpenses_afterBody_def
      NetAssetShare_afterLabel_def payload_of_years_def
      element_def guarded_element_def plus_sign_def Let_def)

section \<open>Cost-to-revenue ratio and empty year selection\<close>

lemma derived_ratio_at:
  assumes "cost_ratio d = derive_cost_ratio d" "revenue d = Some rs" "cost_of_sales d = Some cs"
    "i < length rs" "i < length cs"
  shows "guarded_element (cost_ratio d) i = cost_to_revenue (cs ! i) (rs ! i)"
  using assms by (simp add: derive_cost_ratio_def guarded_element_def element_def)

lemma cost_to_revenue_zero: "cost_to_revenue v (Number (Fin 0)) = Null"
  by (cases "(v, Number (Fin 0))" rule: cost_to_revenue.cases) auto

text \<open>
  C3. In a payload whose cost-ratio table is derived as specified from its cost-of-sales
  and revenue tables, the ratio of a year with revenue zero is absent: the entry is
  \<^verbatim>\<open>null\<close>, no number, and the tooltip of CostExpenses has no ratio line for that
  year. For a year with revenue other than zero the entry is
  \<open>cost_of_sales / revenue * 100\<close>.
\<close>

theorem cost_ratio_absent_on_zero_revenue:
  assumes "cost_ratio d = derive_cost_ratio d" "revenue d = Some rs" "cost_of_sales d = Some cs"
    "i < length rs" "i < length cs"
  shows "(rs ! i = Number (Fin 0) \<longrightarrow>
            guarded_element (cost_ratio d) i = Null \<and> CostExpenses_afterBody d i = TNull)
         \<and> (\<forall>c r. cs ! i = Number (Fin c) \<and> rs ! i = Number (Fin r) \<and> r \<noteq> 0 \<longrightarrow>
              guarded_element (cost_ratio d) i = Number (Fin (c / r * 100)))"
  by (auto simp: derived_ratio_at [OF assms] cost_to_revenue_zero CostExpenses_afterBody_def)

text \<open>Revenue 0 then 80, cost of sales 5 then 60: no ratio for the first year, 75 for the second.\<close>

theorem cost_ratio_absent_on_zero_revenue_witness:
  "cost_ratio zero_revenue_year = derive_cost_ratio zero_revenue_year
   \<and> guarded_element (cost_ratio zero_revenue_year) 0 = Null
   \<and> CostExpenses_afterBody zero_revenue_year 0 = TNull
   \<and> guarded_element (cost_ratio zero_revenue_year) 1 = Number (Fin 75)
   \<and> (60 / 80 * 100 :: rat) = 75"
  using cost_ratio_absent_on_zero_revenue
    [of zero_revenue_year "[Number (Fin 0), Number (Fin 80)]" "[Number (Fin 5), Number (Fin 60)]" 0]
    cost_ratio_absent_on_zero_revenue
    [of zero_revenue_year "[Number (Fin 0), Number (Fin 80)]" "[Number (Fin 5), Number (Fin 60)]" 1]
  by (simp add: zero_revenue_year_def payload_of_years_def derive_cost_ratio_def)

lemma apply_filter_empty_years:
  assumes "sel_years sel = []"
  shows "map year (records (apply_filter rate ds sel)) = map year (records ds)"
  using assms by (simp add: apply_filter_def convert_def comp_def Let_def)

lemma apply_filter_empty_same_currency:
  assumes "sel_years sel = []" "currency sel = ds_currency ds"
  shows "apply_filter rate ds sel = ds"
  using assms by (simp add: apply_filter_def Let_def)

lemma filter_request_stored:
  "\<exists>s1 s2. step s (HandleFilterChange sel) = Some s1
      \<and> error s1 = error s
      \<and> step s1 (Resolved (issued s) response) = Some s2
      \<and> data s2 = Some response \<and> error s2 = error s"
  by (auto simp: send_def settle_def split: option.splits)

text \<open>
  What the filter form itself does with years: on mount an empty selection becomes all six
  available years in the form's own state; the button sends that state; a change of
  industry sends the years of the \<^verbatim>\<open>filters\<close> prop, not those of the form.
\<close>

lemma mount_selects_all_years:
  "years_selected (filters_form_mount (filters_form_init filters_init)) = availableYears"
  by (simp add: filters_form_mount_def filters_form_init_def filters_init_def)

lemma applyFilters_sends_form_years: "sel_years (applyFilters st) = years_selected st"
  by (simp add: applyFilters_def)

lemma handleIndustryChange_sends_prop_years:
  "sel_years (snd (handleIndustryChange f st v)) = sel_years f"
  by (simp add: handleIndustryChange_def)

text \<open>
  C4. A year selection emptied in the filter form is passed on with an empty year list,
  and for every dataset a selection with an empty year list, applied as specified, yields
  all the years of the dataset in their order (the dataset itself when no currency
  conversion is asked for). The application raises no error for it: the request is sent
  with the error message untouched, and the response, once it arrives, is the current
  dataset.
\<close>

theorem empty_selection_yields_all_years:
  "sel_years (snd (handleYearChange f st [])) = []
   \<and> (sel_years sel = [] \<longrightarrow>
        map year (records (apply_filter rate ds sel)) = map year (records ds)
        \<and> (currency sel = ds_currency ds \<longrightarrow> apply_filter rate ds sel = ds)
        \<and> (\<exists>s1 s2. step s (HandleFilterChange sel) = Some s1
              \<and> error s1 = error s
              \<and> step s1 (Resolved (issued s) (apply_filter rate ds sel)) = Some s2
              \<and> data s2 = Some (apply_filter rate ds sel)
              \<and> error s2 = error s))"
  using filter_request_stored [of s sel "apply_filter rate ds sel"]
  by (simp add: handleYearChange_def apply_filter_empty_years apply_filter_empty_same_currency)

text \<open>The selection \<open>{years: [], industry: "All", currency: "LKR"}\<close> on six years.\<close>

theorem empty_selection_yields_all_years_witness:
  "sel_years filters_init = []
   \<and> map year (records (apply_filter 1 six_years filters_init))
     = [2019, 2020, 2021, 2022, 2023, 2024]
   \<and> apply_filter 1 six_years filters_init = six_years
   \<and> map_option data
       (run (app_init :: dataset orchestrator)
          [HandleFilterChange filters_init, Resolved 0 (apply_filter 1 six_years filters_init)])
     = Some (Some six_years)"
  using empty_selection_yields_all_years
    [of filters_init "filters_form_init filters_init" filters_init 1 six_years
        "app_init :: dataset orchestrator"]
  by (simp add: filters_init_def six_years_def availableYears_def apply_filter_def
      app_init_def send_def settle_def Let_def)

end
